theory Spec2Isabelle
  imports Main
begin

section \<open>The event bus and the state store of OMS\<close>

text \<open>
  The development embeds the two core classes of the repository, \<^verbatim>\<open>EventBus\<close>
  (\<^verbatim>\<open>core/EventBus.js\<close>) and \<^verbatim>\<open>Store\<close> (\<^verbatim>\<open>core/Store.js\<close>), together with the
  two global instances \<^verbatim>\<open>eventBus\<close> and \<^verbatim>\<open>store\<close> that the rest of the
  application shares.

  Conventions of the embedding:
  \<^item> A JavaScript function that is compared by reference (a bus callback, a store
    subscriber, an action) is a number, its identity. What it does when called is given by
    an environment \<open>env\<close>: a function from the arguments and the world before the call to
    an outcome (\<open>Inl\<close> an exception, \<open>Inr\<close> a normal return) and the world after it. A
    callback is therefore free to call back into the bus and the store. Callbacks are
    assumed to return or raise.
  \<^item> A mutation function is handed the state record and the payload and nothing else; it
    is a function from these to an outcome and the state it leaves behind.
  \<^item> Every operation that runs callbacks also returns the list of the callbacks that it
    invoked itself, in the order of invocation.
  \<^item> The state record \<open>'s\<close> and the payloads \<open>'v\<close> are opaque to both classes. An
    omitted payload is the value \<^verbatim>\<open>null\<close> of \<open>'v\<close>. The copies \<^verbatim>\<open>{ ...this.state }\<close> are
    shallow; sharing below the first level is outside the model.
  \<^item> Console output, and the \<^verbatim>\<open>debug\<close> flag that only selects it, change nothing that
    the program can observe: a \<^verbatim>\<open>catch\<close> block that only logs is a handler that returns.
    The getter registry is not needed for what is proved here.
\<close>

subsection \<open>Exceptions\<close>

text \<open>
  \<open>MutationNotFound name\<close> and \<open>ActionNotFound name\<close> are the two \<^verbatim>\<open>Error\<close> objects that
  \<^verbatim>\<open>commit\<close> and \<^verbatim>\<open>dispatch\<close> construct for an unregistered name; \<open>TypeError\<close> is what the
  runtime raises for a method call on \<^verbatim>\<open>undefined\<close>; \<open>Thrown v\<close> is any value raised by
  user code.
\<close>

datatype 'v exn =
    MutationNotFound string
  | ActionNotFound string
  | TypeError
  | Thrown 'v

subsection \<open>Built-in collections\<close>

text \<open>
  A \<^verbatim>\<open>Set\<close> is the list of entries that ECMAScript calls \<^verbatim>\<open>[[SetData]]\<close>: \<^verbatim>\<open>add\<close> appends
  a value that is not yet present, \<^verbatim>\<open>delete\<close> replaces the entry by the marker
  \<^verbatim>\<open>empty\<close> (here \<open>None\<close>) and never moves another entry, \<^verbatim>\<open>size\<close> counts the entries
  that are not \<^verbatim>\<open>empty\<close>, and \<^verbatim>\<open>Array.from\<close> lists them in insertion order.
\<close>

type_synonym 'a jsset = "'a option list"

definition set_has :: "'a \<Rightarrow> 'a jsset \<Rightarrow> bool" where
  "set_has x s = (Some x \<in> set s)"

definition set_add :: "'a \<Rightarrow> 'a jsset \<Rightarrow> 'a jsset" where
  "set_add x s = (if set_has x s then s else s @ [Some x])"

definition set_delete :: "'a \<Rightarrow> 'a jsset \<Rightarrow> 'a jsset" where
  "set_delete x s = map (\<lambda>e. if e = Some x then None else e) s"

fun Array_from :: "'a jsset \<Rightarrow> 'a list" where
  "Array_from [] = []"
| "Array_from (None # s) = Array_from s"
| "Array_from (Some x # s) = x # Array_from s"

definition set_size :: "'a jsset \<Rightarrow> nat" where
  "set_size s = length (Array_from s)"

text \<open>
  \<^verbatim>\<open>Array.prototype.forEach\<close> walks the array it is called on. An exception of the
  function ends the walk and is the outcome. The second component of the result lists the
  elements the function was called on.
\<close>

fun forEach ::
  "('a \<Rightarrow> 'w \<Rightarrow> ('e + unit) \<times> 'w) \<Rightarrow> 'a list \<Rightarrow> 'w \<Rightarrow> ('e + unit) \<times> 'a list \<times> 'w" where
  "forEach f [] w = (Inr (), [], w)"
| "forEach f (x # xs) w =
     (case f x w of
        (Inl e, w1) \<Rightarrow> (Inl e, [x], w1)
      | (Inr _, w1) \<Rightarrow>
          (case forEach f xs w1 of (r, visited, w2) \<Rightarrow> (r, x # visited, w2)))"

text \<open>
  \<^verbatim>\<open>Set.prototype.forEach\<close> walks the live entry list by index: after every call of the
  function it reads the set again, so that an entry added during the walk is visited and
  an entry deleted before the walk reaches it is not. \<open>entries\<close> reads the set from the
  world. The walk need not end (a function that deletes and adds its own entry is called
  for ever); then the result is \<open>None\<close>.
\<close>

partial_function (option) set_forEach ::
  "('w \<Rightarrow> 'a jsset) \<Rightarrow> ('a \<Rightarrow> 'w \<Rightarrow> ('e + unit) \<times> 'w) \<Rightarrow> nat \<Rightarrow> 'w
     \<Rightarrow> (('e + unit) \<times> 'a list \<times> 'w) option" where
  "set_forEach entries f index w =
     (if index < length (entries w) then
        (case entries w ! index of
           None \<Rightarrow> set_forEach entries f (Suc index) w
         | Some x \<Rightarrow>
             (case f x w of
                (Inl e, w1) \<Rightarrow> Some (Inl e, [x], w1)
              | (Inr _, w1) \<Rightarrow>
                  Option.bind (set_forEach entries f (Suc index) w1)
                    (\<lambda>(r, visited, w2). Some (r, x # visited, w2))))
      else Some (Inr (), [], w))"

text \<open>
  \<^verbatim>\<open>Array.prototype.slice(start)\<close> for an integer \<open>start\<close>: a negative \<open>start\<close> counts
  from the end, and the result begins at the clamped index. \<^verbatim>\<open>-0\<close> is \<^verbatim>\<open>0\<close>.
\<close>

definition slice :: "int \<Rightarrow> 'a list \<Rightarrow> 'a list" where
  "slice start xs =
     (let len = int (length xs);
          k = (if start < 0 then max (len + start) 0 else min start len)
      in drop (nat k) xs)"

subsection \<open>The data of the two classes\<close>

type_synonym fn = nat

record 'v listener =
  lid :: nat
  callback :: fn
  once :: bool
  context' :: "'v option"

text \<open>
  \<open>lid\<close> is the identity of the listener object that \<^verbatim>\<open>on\<close> allocates: the set of a topic
  holds objects, and two listeners with equal fields are still two entries. A
  \<^verbatim>\<open>context\<close> that is absent or falsy is stored as \<^verbatim>\<open>null\<close>, here \<open>None\<close>.
\<close>

record 'v event_bus =
  events :: "string \<rightharpoonup> 'v listener jsset"
  debug :: bool

record ('s, 'v) entry =
  e_type :: string
  e_name :: string
  e_payload :: 'v
  e_prevState :: 's
  e_newState :: 's
  e_timestamp :: nat

text \<open>
  \<open>history\<close> is a reference to an array: \<^verbatim>\<open>push\<close> changes the array in place, while
  \<^verbatim>\<open>slice\<close> and the spread \<^verbatim>\<open>[...this.history]\<close> allocate a new one.
\<close>

record ('s, 'v) store =
  state :: 's
  mutations :: "string \<rightharpoonup> ('s \<Rightarrow> 'v \<Rightarrow> ('v exn + unit) \<times> 's)"
  actions :: "string \<rightharpoonup> fn"
  subscribers :: "fn jsset"
  isCommitting :: bool
  history :: nat
  maxHistorySize :: int

text \<open>
  The world holds the global \<^verbatim>\<open>eventBus\<close>, the global \<^verbatim>\<open>store\<close>, the arrays of history
  entries by reference, the next unused reference, and the clock that \<^verbatim>\<open>Date.now()\<close>
  reads.
\<close>

record ('s, 'v) world =
  bus :: "'v event_bus"
  store :: "('s, 'v) store"
  arrays :: "nat \<Rightarrow> ('s, 'v) entry list"
  fresh :: nat
  clock :: nat

text \<open>What a listener is called with: the data of an \<^verbatim>\<open>emit\<close>.\<close>

datatype ('s, 'v) data =
    Data 'v
  | MutationData string 'v 's 's
  | ActionData string 'v 'v

record ('s, 'v) env =
  listener_fn ::
    "fn \<Rightarrow> 'v option \<Rightarrow> ('s, 'v) data \<Rightarrow> ('s, 'v) world \<Rightarrow> ('v exn + unit) \<times> ('s, 'v) world"
  subscriber_fn ::
    "fn \<Rightarrow> 's \<Rightarrow> 's \<Rightarrow> string \<times> 'v \<Rightarrow> ('s, 'v) world \<Rightarrow> ('v exn + unit) \<times> ('s, 'v) world"
  action_fn ::
    "fn \<Rightarrow> 'v \<Rightarrow> ('s, 'v) world \<Rightarrow> ('v exn + 'v) \<times> ('s, 'v) world"

text \<open>
  The calls to callbacks: a subscriber with the previous state and the descriptor
  \<^verbatim>\<open>{type: 'mutation', name, payload}\<close> (its second argument is the live state of the
  world it runs in), a listener with the data of the \<^verbatim>\<open>emit\<close>.
\<close>

datatype ('s, 'v) call =
    SubscriberCall fn 's "string \<times> 'v"
  | ListenerCall "'v listener" "('s, 'v) data"

subsection \<open>EventBus\<close>

definition new_EventBus :: "'v event_bus" where
  "new_EventBus = \<lparr>events = Map.empty, debug = False\<rparr>"

definition set_events ::
  "(string \<rightharpoonup> 'v listener jsset) \<Rightarrow> ('s, 'v) world \<Rightarrow> ('s, 'v) world" where
  "set_events m w = w\<lparr>bus := (bus w)\<lparr>events := m\<rparr>\<rparr>"

text \<open>
  \<^verbatim>\<open>off(event, callback)\<close> deletes the first listener of the topic with this callback.
\<close>

definition off :: "string \<Rightarrow> fn \<Rightarrow> ('s, 'v) world \<Rightarrow> ('s, 'v) world" where
  "off event cb w =
     (case events (bus w) event of
        None \<Rightarrow> w
      | Some listeners \<Rightarrow>
          (case find (\<lambda>l. callback l = cb) (Array_from listeners) of
             None \<Rightarrow> w
           | Some toRemove \<Rightarrow>
               set_events ((events (bus w))(event \<mapsto> set_delete toRemove listeners)) w))"

text \<open>
  \<^verbatim>\<open>on(event, callback, options)\<close> creates the set of a new topic, allocates the
  listener, adds it, and returns the function that unsubscribes the callback.
\<close>

definition on ::
  "string \<Rightarrow> fn \<Rightarrow> bool \<Rightarrow> 'v option \<Rightarrow> ('s, 'v) world
     \<Rightarrow> (('s, 'v) world \<Rightarrow> ('s, 'v) world) \<times> ('s, 'v) world" where
  "on event cb opt_once opt_context w =
     (let m = (case events (bus w) event of
                 None \<Rightarrow> (events (bus w))(event \<mapsto> [])
               | Some _ \<Rightarrow> events (bus w));
          l = \<lparr>lid = fresh w, callback = cb, once = opt_once, context' = opt_context\<rparr>;
          m' = (case m event of
                  None \<Rightarrow> m
                | Some listeners \<Rightarrow> m(event \<mapsto> set_add l listeners))
      in (off event cb, (set_events m' w)\<lparr>fresh := Suc (fresh w)\<rparr>))"

definition once' ::
  "string \<Rightarrow> fn \<Rightarrow> 'v option \<Rightarrow> ('s, 'v) world
     \<Rightarrow> (('s, 'v) world \<Rightarrow> ('s, 'v) world) \<times> ('s, 'v) world" where
  "once' event cb opt_context w = on event cb True opt_context w"

text \<open>
  The body of the \<^verbatim>\<open>try\<close> block of \<^verbatim>\<open>emit\<close>: call the callback; when it has returned and
  the listener is a one-time listener, delete the listener from the set that the topic has
  now. After a \<^verbatim>\<open>clear()\<close> by the callback the topic has no set, and the method call on
  \<^verbatim>\<open>undefined\<close> raises.
\<close>

definition listener_try ::
  "('s, 'v) env \<Rightarrow> string \<Rightarrow> ('s, 'v) data \<Rightarrow> 'v listener \<Rightarrow> ('s, 'v) world
     \<Rightarrow> ('v exn + unit) \<times> ('s, 'v) world" where
  "listener_try env event d l w =
     (case listener_fn env (callback l) (context' l) d w of
        (Inl error, w1) \<Rightarrow> (Inl error, w1)
      | (Inr _, w1) \<Rightarrow>
          if once l then
            (case events (bus w1) event of
               None \<Rightarrow> (Inl TypeError, w1)
             | Some listeners \<Rightarrow>
                 (Inr (), set_events ((events (bus w1))(event \<mapsto> set_delete l listeners)) w1))
          else (Inr (), w1))"

text \<open>The \<^verbatim>\<open>try\<close> with its \<^verbatim>\<open>catch\<close>, which logs the error and returns.\<close>

definition listener_step ::
  "('s, 'v) env \<Rightarrow> string \<Rightarrow> ('s, 'v) data \<Rightarrow> 'v listener \<Rightarrow> ('s, 'v) world
     \<Rightarrow> ('v exn + unit) \<times> ('s, 'v) world" where
  "listener_step env event d l w =
     (case listener_try env event d l w of
        (Inl error, w1) \<Rightarrow> (Inr (), w1)
      | (Inr u, w1) \<Rightarrow> (Inr u, w1))"

definition emit ::
  "('s, 'v) env \<Rightarrow> string \<Rightarrow> ('s, 'v) data \<Rightarrow> ('s, 'v) world
     \<Rightarrow> ('v exn + unit) \<times> ('s, 'v) call list \<times> ('s, 'v) world" where
  "emit env event d w =
     (case events (bus w) event of
        None \<Rightarrow> (Inr (), [], w)
      | Some listeners \<Rightarrow>
          (case forEach (listener_step env event d) (Array_from listeners) w of
             (r, visited, w1) \<Rightarrow> (r, map (\<lambda>l. ListenerCall l d) visited, w1)))"

definition clear :: "('s, 'v) world \<Rightarrow> ('s, 'v) world" where
  "clear w = set_events Map.empty w"

definition getListenerCount :: "string \<Rightarrow> ('s, 'v) world \<Rightarrow> nat" where
  "getListenerCount event w =
     (case events (bus w) event of None \<Rightarrow> 0 | Some listeners \<Rightarrow> set_size listeners)"

definition setDebug :: "bool \<Rightarrow> ('s, 'v) world \<Rightarrow> ('s, 'v) world" where
  "setDebug enabled w = w\<lparr>bus := (bus w)\<lparr>debug := enabled\<rparr>\<rparr>"

subsection \<open>Store\<close>

text \<open>
  The two module-level instances: \<^verbatim>\<open>new EventBus()\<close> and \<^verbatim>\<open>new Store(initialState)\<close>,
  whose constructor allocates the empty history array.
\<close>

definition new_Store :: "'s \<Rightarrow> nat \<Rightarrow> ('s, 'v) store" where
  "new_Store initialState a =
     \<lparr>state = initialState, mutations = Map.empty, actions = Map.empty, subscribers = [],
      isCommitting = False, history = a, maxHistorySize = 50\<rparr>"

definition init_world :: "'s \<Rightarrow> nat \<Rightarrow> ('s, 'v) world" where
  "init_world initialState now =
     \<lparr>bus = new_EventBus, store = new_Store initialState 0, arrays = (\<lambda>_. []), fresh = 1,
      clock = now\<rparr>"

definition new_array ::
  "('s, 'v) entry list \<Rightarrow> ('s, 'v) world \<Rightarrow> nat \<times> ('s, 'v) world" where
  "new_array xs w = (fresh w, w\<lparr>arrays := (arrays w)(fresh w := xs), fresh := Suc (fresh w)\<rparr>)"

definition registerMutation ::
  "string \<Rightarrow> ('s \<Rightarrow> 'v \<Rightarrow> ('v exn + unit) \<times> 's) \<Rightarrow> ('s, 'v) world \<Rightarrow> ('s, 'v) world" where
  "registerMutation name mutationFn w =
     w\<lparr>store := (store w)\<lparr>mutations := (mutations (store w))(name \<mapsto> mutationFn)\<rparr>\<rparr>"

definition registerAction :: "string \<Rightarrow> fn \<Rightarrow> ('s, 'v) world \<Rightarrow> ('s, 'v) world" where
  "registerAction name actionFn w =
     w\<lparr>store := (store w)\<lparr>actions := (actions (store w))(name \<mapsto> actionFn)\<rparr>\<rparr>"

definition getState :: "('s, 'v) world \<Rightarrow> 's" where
  "getState w = state (store w)"

definition unsubscribe :: "fn \<Rightarrow> ('s, 'v) world \<Rightarrow> ('s, 'v) world" where
  "unsubscribe cb w = w\<lparr>store := (store w)\<lparr>subscribers := set_delete cb (subscribers (store w))\<rparr>\<rparr>"

text \<open>\<^verbatim>\<open>subscribe\<close> returns the function that deletes the callback from the set.\<close>

definition subscribe ::
  "fn \<Rightarrow> ('s, 'v) world \<Rightarrow> (('s, 'v) world \<Rightarrow> ('s, 'v) world) \<times> ('s, 'v) world" where
  "subscribe cb w =
     (unsubscribe cb, w\<lparr>store := (store w)\<lparr>subscribers := set_add cb (subscribers (store w))\<rparr>\<rparr>)"

text \<open>The \<^verbatim>\<open>try\<close> and \<^verbatim>\<open>catch\<close> around the call of one subscriber.\<close>

definition subscriber_step ::
  "('s, 'v) env \<Rightarrow> 's \<Rightarrow> string \<times> 'v \<Rightarrow> fn \<Rightarrow> ('s, 'v) world
     \<Rightarrow> ('v exn + unit) \<times> ('s, 'v) world" where
  "subscriber_step env prevState mutation cb w =
     (case subscriber_fn env cb prevState (state (store w)) mutation w of
        (Inl error, w1) \<Rightarrow> (Inr (), w1)
      | (Inr u, w1) \<Rightarrow> (Inr u, w1))"

definition notifySubscribers ::
  "('s, 'v) env \<Rightarrow> 's \<Rightarrow> string \<times> 'v \<Rightarrow> ('s, 'v) world
     \<Rightarrow> (('v exn + unit) \<times> ('s, 'v) call list \<times> ('s, 'v) world) option" where
  "notifySubscribers env prevState mutation w =
     (case set_forEach (\<lambda>w. subscribers (store w)) (subscriber_step env prevState mutation) 0 w of
        None \<Rightarrow> None
      | Some (r, visited, w1) \<Rightarrow>
          Some (r, map (\<lambda>cb. SubscriberCall cb prevState mutation) visited, w1))"

definition addToHistory :: "('s, 'v) entry \<Rightarrow> ('s, 'v) world \<Rightarrow> ('s, 'v) world" where
  "addToHistory entry w =
     (let a = history (store w);
          w1 = w\<lparr>arrays := (arrays w)(a := arrays w a @ [entry])\<rparr>
      in if int (length (arrays w1 a)) > maxHistorySize (store w1) then
           (case new_array (slice (- maxHistorySize (store w1)) (arrays w1 a)) w1 of
              (b, w2) \<Rightarrow> w2\<lparr>store := (store w2)\<lparr>history := b\<rparr>\<rparr>)
         else w1)"

definition getHistory :: "('s, 'v) world \<Rightarrow> nat \<times> ('s, 'v) world" where
  "getHistory w = new_array (arrays w (history (store w))) w"

definition clearHistory :: "('s, 'v) world \<Rightarrow> ('s, 'v) world" where
  "clearHistory w = (case new_array [] w of (b, w1) \<Rightarrow> w1\<lparr>store := (store w1)\<lparr>history := b\<rparr>\<rparr>)"

definition setMaxHistorySize :: "int \<Rightarrow> ('s, 'v) world \<Rightarrow> ('s, 'v) world" where
  "setMaxHistorySize size' w =
     (let w1 = w\<lparr>store := (store w)\<lparr>maxHistorySize := size'\<rparr>\<rparr>
      in if int (length (arrays w1 (history (store w1)))) > size' then
           (case new_array (slice (- size') (arrays w1 (history (store w1)))) w1 of
              (b, w2) \<Rightarrow> w2\<lparr>store := (store w2)\<lparr>history := b\<rparr>\<rparr>)
         else w1)"

definition set_state :: "'s \<Rightarrow> ('s, 'v) world \<Rightarrow> ('s, 'v) world" where
  "set_state s w = w\<lparr>store := (store w)\<lparr>state := s\<rparr>\<rparr>"

definition set_isCommitting :: "bool \<Rightarrow> ('s, 'v) world \<Rightarrow> ('s, 'v) world" where
  "set_isCommitting b w = w\<lparr>store := (store w)\<lparr>isCommitting := b\<rparr>\<rparr>"

text \<open>
  The \<^verbatim>\<open>try\<close> block of \<^verbatim>\<open>commit\<close>: the mutation works on the state record in place, so
  what it has done before it raised stays; then the history entry, the subscribers and
  the bus event \<^verbatim>\<open>store:mutation\<close>.
\<close>

definition commit_try ::
  "('s, 'v) env \<Rightarrow> ('s \<Rightarrow> 'v \<Rightarrow> ('v exn + unit) \<times> 's) \<Rightarrow> string \<Rightarrow> 'v \<Rightarrow> 's \<Rightarrow> ('s, 'v) world
     \<Rightarrow> (('v exn + unit) \<times> ('s, 'v) call list \<times> ('s, 'v) world) option" where
  "commit_try env mutation mutationName payload prevState w =
     (case mutation (state (store w)) payload of
        (Inl error, s1) \<Rightarrow> Some (Inl error, [], set_state s1 w)
      | (Inr _, s1) \<Rightarrow>
          (let w1 = set_state s1 w;
               w2 = addToHistory
                      \<lparr>e_type = ''mutation'', e_name = mutationName, e_payload = payload,
                       e_prevState = prevState, e_newState = state (store w1),
                       e_timestamp = clock w1\<rparr> w1
           in case notifySubscribers env prevState (mutationName, payload) w2 of
                None \<Rightarrow> None
              | Some (Inl error, calls, w3) \<Rightarrow> Some (Inl error, calls, w3)
              | Some (Inr _, calls, w3) \<Rightarrow>
                  (case emit env ''store:mutation''
                          (MutationData mutationName payload prevState (state (store w3))) w3 of
                     (r, calls', w4) \<Rightarrow> Some (r, calls @ calls', w4))))"

text \<open>
  \<^verbatim>\<open>commit\<close>: the lookup, the copy of the state, the flag, the \<^verbatim>\<open>try\<close> block, the
  \<^verbatim>\<open>catch\<close> that logs and raises the error again, and the \<^verbatim>\<open>finally\<close> that resets the
  flag.
\<close>

definition commit ::
  "('s, 'v) env \<Rightarrow> string \<Rightarrow> 'v \<Rightarrow> ('s, 'v) world
     \<Rightarrow> (('v exn + unit) \<times> ('s, 'v) call list \<times> ('s, 'v) world) option" where
  "commit env mutationName payload w =
     (case mutations (store w) mutationName of
        None \<Rightarrow> Some (Inl (MutationNotFound mutationName), [], w)
      | Some mutation \<Rightarrow>
          (let prevState = state (store w)
           in case commit_try env mutation mutationName payload prevState
                     (set_isCommitting True w) of
                None \<Rightarrow> None
              | Some (r, calls, w1) \<Rightarrow> Some (r, calls, set_isCommitting False w1)))"


subsection \<open>Observations and conditions on callbacks\<close>

text \<open>The listeners registered for a topic, as \<^verbatim>\<open>Array.from\<close> lists them.\<close>

definition listeners_of :: "string \<Rightarrow> ('s, 'v) world \<Rightarrow> 'v listener list" where
  "listeners_of event w =
     (case events (bus w) event of None \<Rightarrow> [] | Some listeners \<Rightarrow> Array_from listeners)"

text \<open>The entries of the array that \<^verbatim>\<open>this.history\<close> refers to.\<close>

definition history_entries :: "('s, 'v) world \<Rightarrow> ('s, 'v) entry list" where
  "history_entries w = arrays w (history (store w))"













subsection \<open>Example programs\<close>

text \<open>
  \<open>SET_COUNT\<close> is the mutation \<^verbatim>\<open>(state, payload) => { state.count = payload }\<close> on a
  state that is the count; \<open>ADD_USER\<close> is \<^verbatim>\<open>(state, user) => { state.users.push(user) }\<close>
  of \<^verbatim>\<open>DataModule.js\<close> on a state that is the list of users; \<open>FAILING\<close> raises its
  payload.
\<close>

definition SET_COUNT :: "nat \<Rightarrow> nat \<Rightarrow> (nat exn + unit) \<times> nat" where
  "SET_COUNT s p = (Inr (), p)"


definition FAILING :: "nat \<Rightarrow> nat \<Rightarrow> (nat exn + unit) \<times> nat" where
  "FAILING s p = (Inl (Thrown p), s)"

text \<open>Callbacks that return at once; an action that returns its payload.\<close>

definition quiet_env :: "('s, nat) env" where
  "quiet_env =
     \<lparr>listener_fn = (\<lambda>cb c d w. (Inr (), w)),
      subscriber_fn = (\<lambda>cb p n m w. (Inr (), w)),
      action_fn = (\<lambda>f p w. (Inr p, w))\<rparr>"

text \<open>The function \<open>1\<close> raises wherever it is called; every other function returns.\<close>

definition raising_env :: "('s, nat) env" where
  "raising_env =
     \<lparr>listener_fn = (\<lambda>cb c d w. if cb = 1 then (Inl (Thrown 0), w) else (Inr (), w)),
      subscriber_fn = (\<lambda>cb p n m w. if cb = 1 then (Inl (Thrown 0), w) else (Inr (), w)),
      action_fn = (\<lambda>f p w. if f = 1 then (Inl (Thrown 0), w) else (Inr p, w))\<rparr>"


text \<open>A store with the count \<open>0\<close> and the mutations \<open>SET_COUNT\<close> and \<open>FAILING\<close>.\<close>

definition count_world :: "(nat, nat) world" where
  "count_world =
     registerMutation ''FAILING'' FAILING
       (registerMutation ''SET_COUNT'' SET_COUNT (init_world 0 0))"





text \<open>
  Two commits of the same mutation with the same payload, one after the other (the caller
  goes on after an error of the first), and what a caller reads after a commit: the state
  record, and the entries of the array that \<^verbatim>\<open>getHistory\<close> returns.
\<close>

definition commit_twice ::
  "('s, 'v) env \<Rightarrow> string \<Rightarrow> 'v \<Rightarrow> ('s, 'v) world
     \<Rightarrow> (('v exn + unit) \<times> ('s, 'v) call list \<times> ('s, 'v) world) option" where
  "commit_twice env n p w =
     (case commit env n p w of
        None \<Rightarrow> None
      | Some (r, calls, w1) \<Rightarrow> commit env n p w1)"


definition entries_after ::
  "(('v exn + unit) \<times> ('s, 'v) call list \<times> ('s, 'v) world) option
     \<Rightarrow> ('s, 'v) entry list option" where
  "entries_after x =
     (case x of
        None \<Rightarrow> None
      | Some (r, calls, w) \<Rightarrow> (case getHistory w of (a, w1) \<Rightarrow> Some (arrays w1 a)))"

text \<open>The last \<open>k\<close> elements of a list.\<close>

definition last_entries :: "nat \<Rightarrow> 'a list \<Rightarrow> 'a list" where
  "last_entries k xs = drop (length xs - k) xs"



text \<open>The store of \<open>count_world\<close> after \<^verbatim>\<open>setMaxHistorySize(0)\<close>.\<close>

definition zero_world :: "(nat, nat) world" where
  "zero_world = setMaxHistorySize 0 count_world"

text \<open>A bus with the one-time listener \<open>1\<close> on the topic \<^verbatim>\<open>x\<close>.\<close>

definition once_world :: "(nat, nat) world" where
  "once_world = snd (once' ''x'' 1 None (init_world 0 0))"



section \<open>Properties\<close>

subsection \<open>Walking arrays and sets\<close>









subsection \<open>Errors of commit\<close>

text \<open>
  Claim C6. For a name that is not in the mutation registry, \<^verbatim>\<open>commit\<close> raises the
  error for an unknown mutation, calls nobody, and leaves the whole world, so the state
  record and the history too, as it was.
\<close>

theorem commit_unknown_mutation:
  assumes "mutations (store w) n = None"
  shows "commit env n p w = Some (Inl (MutationNotFound n), [], w)"
  using assms by (simp add: commit_def)

theorem commit_unknown_mutation_witness:
  "mutations (store count_world) ''unknownName'' = None \<and>
   commit quiet_env ''unknownName'' 0 count_world =
     Some (Inl (MutationNotFound ''unknownName''), [], count_world)"
proof -
  have h: "mutations (store count_world) ''unknownName'' = None"
    by (simp add: count_world_def registerMutation_def init_world_def new_Store_def)
  from commit_unknown_mutation [OF h] h show ?thesis by simp
qed

text \<open>
  Claim C5. When the registered mutation function raises, \<^verbatim>\<open>commit\<close> raises the same
  error, and it has called no subscriber and no listener and has appended nothing to the
  history: the world is the one before the call, but for what the mutation did to the
  state record before it raised, with the flag reset.
\<close>

theorem commit_failing_mutation:
  assumes "mutations (store w) n = Some f"
    and "f (state (store w)) p = (Inl e, s1)"
  shows "\<exists>w'. commit env n p w = Some (Inl e, [], w')
           \<and> w' = w\<lparr>store := (store w)\<lparr>state := s1, isCommitting := False\<rparr>\<rparr>
           \<and> history_entries w' = history_entries w"
  using assms
  by (simp add: commit_def commit_try_def set_isCommitting_def set_state_def
      history_entries_def)

theorem commit_failing_mutation_witness:
  "mutations (store count_world) ''FAILING'' = Some FAILING \<and>
   FAILING (state (store count_world)) 7 = (Inl (Thrown 7), 0) \<and>
   (\<exists>w'. commit quiet_env ''FAILING'' 7 count_world = Some (Inl (Thrown 7), [], w')
      \<and> history_entries w' = history_entries count_world)"
proof -
  have h1: "mutations (store count_world) ''FAILING'' = Some FAILING"
    by (simp add: count_world_def registerMutation_def init_world_def new_Store_def)
  have h2: "FAILING (state (store count_world)) 7 = (Inl (Thrown 7), 0)"
    by (simp add: count_world_def registerMutation_def init_world_def new_Store_def
        FAILING_def)
  from commit_failing_mutation [OF h1 h2, of quiet_env] h1 h2 show ?thesis by blast
qed

subsection \<open>Evaluation and frame lemmas\<close>

lemmas run_defs =
  init_world_def new_Store_def new_EventBus_def new_array_def registerMutation_def
  registerAction_def subscribe_def unsubscribe_def on_def off_def set_events_def
  set_add_def set_has_def set_delete_def set_size_def Let_def

lemmas commit_defs =
  commit_def commit_try_def notifySubscribers_def set_forEach.simps emit_def
  listener_step_def listener_try_def subscriber_step_def addToHistory_def slice_def
  set_state_def set_isCommitting_def




lemma addToHistory_store:
  "state (store (addToHistory e w)) = state (store w)"
  "mutations (store (addToHistory e w)) = mutations (store w)"
  "subscribers (store (addToHistory e w)) = subscribers (store w)"
  "isCommitting (store (addToHistory e w)) = isCommitting (store w)"
  "maxHistorySize (store (addToHistory e w)) = maxHistorySize (store w)"
  "bus (addToHistory e w) = bus w"
  by (simp_all add: addToHistory_def new_array_def Let_def)



subsection \<open>Errors of subscribers\<close>

text \<open>
  The step of the subscriber round keeps the world that the callback leaves and drops its
  outcome. So the walk over the subscribers never ends with an error, a commit of a
  mutation that returns never raises, and which subscribers are called does not depend on
  which of them raise. This needs no condition on the callbacks.
\<close>

lemma subscriber_step_world:
  "subscriber_step env prev m cb w = (Inr (), snd (subscriber_fn env cb prev (state (store w)) m w))"
  by (simp add: subscriber_step_def split: prod.splits sum.splits)




lemma notifySubscribers_outcome_irrelevant:
  assumes "\<And>cb a b m w. snd (subscriber_fn env cb a b m w) = snd (subscriber_fn env' cb a b m w)"
  shows "notifySubscribers env prev m w = notifySubscribers env' prev m w"
proof -
  have "subscriber_step env prev m = subscriber_step env' prev m"
    by (intro ext) (simp add: subscriber_step_world assms)
  then show ?thesis by (simp add: notifySubscribers_def)
qed

subsection \<open>What the rounds leave\<close>











subsection \<open>Failure isolation\<close>



subsection \<open>The snapshot of a publish\<close>

lemma Array_from_append: "Array_from (s @ t) = Array_from s @ Array_from t"
  by (induction s rule: Array_from.induct) simp_all

lemma set_Array_from: "x \<in> set (Array_from s) \<longleftrightarrow> set_has x s"
  by (induction s rule: Array_from.induct) (auto simp: set_has_def)

lemma Array_from_set_add:
  "Array_from (set_add x s) = (if set_has x s then Array_from s else Array_from s @ [x])"
  by (simp add: set_add_def Array_from_append)




subsection \<open>Subscribing to the store\<close>

lemma set_has_set_add: "set_has c (set_add c s)"
  by (simp add: set_add_def set_has_def)



lemma Array_from_set_delete: "Array_from (set_delete c s) = filter (\<lambda>x. x \<noteq> c) (Array_from s)"
  by (induction s rule: Array_from.induct) (simp_all add: set_delete_def)

lemma distinct_set_add: "distinct (Array_from s) \<Longrightarrow> distinct (Array_from (set_add c s))"
  by (simp add: Array_from_set_add set_Array_from)

lemma distinct_set_delete: "distinct (Array_from s) \<Longrightarrow> distinct (Array_from (set_delete c s))"
  by (simp add: Array_from_set_delete)






subsection \<open>The copy of the history\<close>

text \<open>
  The history of a store is an allocated array: this holds for a new store and is kept by
  the methods that work on the history.
\<close>

lemma history_allocated:
  "history (store (init_world s now :: ('s, 'v) world)) < fresh (init_world s now :: ('s, 'v) world)"
  "history (store w) < fresh w \<Longrightarrow> history (store (addToHistory e w)) < fresh (addToHistory e w)"
  "history (store w) < fresh w \<Longrightarrow> history (store (setMaxHistorySize k w)) < fresh (setMaxHistorySize k w)"
  "history (store (clearHistory w)) < fresh (clearHistory w)"
  "history (store w) < fresh w \<Longrightarrow> history (store (snd (getHistory w))) < fresh (snd (getHistory w))"
  by (simp_all add: init_world_def new_Store_def addToHistory_def setMaxHistorySize_def
      clearHistory_def getHistory_def new_array_def Let_def)



subsection \<open>What a commit does to the state\<close>







subsection \<open>Dispatch\<close>




subsection \<open>The bound of the history\<close>

text \<open>
  What \<^verbatim>\<open>addToHistory\<close> and \<^verbatim>\<open>setMaxHistorySize\<close> leave in the history. For a capacity
  of at least \<open>1\<close> the history holds the last entries, oldest first, however many are
  added. For the capacity \<open>0\<close> nothing is ever dropped.
\<close>

lemma nat_clamp: "1 \<le> k \<Longrightarrow> nat (max (int n + - k) 0) = n - nat k"
  by arith

lemma slice_minus:
  "1 \<le> k \<Longrightarrow> slice (- k) xs = last_entries (nat k) xs"
  "slice 0 xs = xs"
  using nat_clamp [of k "length xs"]
  by (simp_all add: slice_def last_entries_def Let_def)

lemma history_entries_addToHistory:
  "history_entries (addToHistory e w) =
     (if int (length (history_entries w @ [e])) > maxHistorySize (store w)
      then slice (- maxHistorySize (store w)) (history_entries w @ [e])
      else history_entries w @ [e])"
  by (simp add: history_entries_def addToHistory_def new_array_def Let_def)

lemma addToHistory_last:
  assumes "1 \<le> maxHistorySize (store w)"
  shows "history_entries (addToHistory e w) =
         last_entries (nat (maxHistorySize (store w))) (history_entries w @ [e])"
  using assms
  by (auto simp: history_entries_addToHistory slice_minus last_entries_def)

lemma addToHistory_capacity_zero:
  assumes "maxHistorySize (store w) = 0"
  shows "history_entries (addToHistory e w) = history_entries w @ [e]"
  using assms by (simp add: history_entries_addToHistory slice_minus)

lemma last_entries_snoc:
  assumes "0 < k"
  shows "last_entries k (last_entries k xs @ [e]) = last_entries k (xs @ [e])"
proof (cases "k \<le> length xs")
  case True
  with assms have "Suc (length xs) - k = Suc (length xs - k)" by arith
  with True show ?thesis by (simp add: last_entries_def)
next
  case False
  then show ?thesis by (simp add: last_entries_def)
qed

lemma history_keeps_last:
  assumes "1 \<le> maxHistorySize (store w)"
  shows "maxHistorySize (store (foldl (\<lambda>w e. addToHistory e w) w es)) = maxHistorySize (store w)
       \<and> history_entries (foldl (\<lambda>w e. addToHistory e w) w es) =
         (if es = [] then history_entries w
          else last_entries (nat (maxHistorySize (store w))) (history_entries w @ es))"
  using assms
proof (induction es rule: rev_induct)
  case Nil
  show ?case by simp
next
  case (snoc e es)
  let ?w = "foldl (\<lambda>w e. addToHistory e w) w es"
  from snoc have m: "maxHistorySize (store ?w) = maxHistorySize (store w)" by simp
  with snoc.prems have "history_entries (addToHistory e ?w) =
      last_entries (nat (maxHistorySize (store w))) (history_entries ?w @ [e])"
    using addToHistory_last [of ?w e] by simp
  also have "\<dots> = last_entries (nat (maxHistorySize (store w))) (history_entries w @ es @ [e])"
    using snoc last_entries_snoc [of "nat (maxHistorySize (store w))" "history_entries w @ es" e]
    by (cases "es = []") auto
  finally show ?case using m by (simp add: addToHistory_store)
qed

lemma history_entries_setMaxHistorySize:
  "history_entries (setMaxHistorySize k w) =
     (if int (length (history_entries w)) > k then slice (- k) (history_entries w)
      else history_entries w)"
  by (simp add: history_entries_def setMaxHistorySize_def new_array_def Let_def)

text \<open>
  Claim C1. The length of the history never exceeds the configured capacity \<open>n\<close>, and
  after more than \<open>n\<close> commits \<^verbatim>\<open>getHistory\<close> returns the \<open>n\<close> most recent entries.
  The code breaks this at the capacity \<open>0\<close>: after \<^verbatim>\<open>setMaxHistorySize(0)\<close> the array
  returned by \<^verbatim>\<open>getHistory\<close> has one entry after one commit and two after two, because
  \<^verbatim>\<open>slice(-0)\<close> is \<^verbatim>\<open>slice(0)\<close>, the whole array.
\<close>

theorem history_capacity_zero:
  "maxHistorySize (store zero_world) = 0 \<and>
   map_option length (entries_after (commit quiet_env ''SET_COUNT'' 5 zero_world)) = Some 1 \<and>
   map_option length (entries_after (commit_twice quiet_env ''SET_COUNT'' 5 zero_world)) = Some 2"
  by (simp add: entries_after_def commit_twice_def zero_world_def count_world_def
      setMaxHistorySize_def getHistory_def SET_COUNT_def quiet_env_def commit_defs run_defs)


subsection \<open>One-time listeners\<close>

text \<open>A one-time listener whose callback returns is deleted after its call.\<close>

lemma once_listener_returning:
  "fst (snd (emit quiet_env ''x'' (Data 0) once_world)) =
     [ListenerCall \<lparr>lid = 1, callback = 1, once = True, context' = None\<rparr> (Data 0)] \<and>
   getListenerCount ''x'' (snd (snd (emit quiet_env ''x'' (Data 0) once_world))) = 0 \<and>
   fst (snd (emit quiet_env ''x'' (Data 0)
               (snd (snd (emit quiet_env ''x'' (Data 0) once_world))))) = []"
  by (simp add: once_world_def once'_def listeners_of_def getListenerCount_def quiet_env_def
      emit_def listener_step_def listener_try_def run_defs)

text \<open>
  Claim C2. A listener subscribed with \<^verbatim>\<open>once: true\<close> is invoked at most once over any
  sequence of publishes, and after its invocation, whether or not the callback raised, it
  is no longer counted by \<^verbatim>\<open>getListenerCount\<close>. The code breaks this for a callback that
  raises: the deletion follows the call inside the \<^verbatim>\<open>try\<close> block and is skipped, so the
  listener is still counted after the first publish and is invoked again by the second.
\<close>

theorem once_listener_raising:
  "listeners_of ''x'' once_world = [\<lparr>lid = 1, callback = 1, once = True, context' = None\<rparr>] \<and>
   fst (snd (emit raising_env ''x'' (Data 0) once_world)) =
     [ListenerCall \<lparr>lid = 1, callback = 1, once = True, context' = None\<rparr> (Data 0)] \<and>
   getListenerCount ''x'' (snd (snd (emit raising_env ''x'' (Data 0) once_world))) = 1 \<and>
   fst (snd (emit raising_env ''x'' (Data 0)
               (snd (snd (emit raising_env ''x'' (Data 0) once_world))))) =
     [ListenerCall \<lparr>lid = 1, callback = 1, once = True, context' = None\<rparr> (Data 0)]"
  by (simp add: once_world_def once'_def listeners_of_def getListenerCount_def raising_env_def
      emit_def listener_step_def listener_try_def run_defs)

end
